theory Spec2Isabelle
  imports Complex_Main "HOL-Library.Sublist"
begin

section \<open>dBlazy: the window and the breakpoint selection\<close>

text \<open>
  The browser window as \<^verbatim>\<open>dBlazy.windowWidth\<close> and \<^verbatim>\<open>dBlazy.pixelRatio\<close> read it: four
  integer widths in CSS pixels and the device pixel ratio, which is a fraction on many
  screens and is absent (\<open>None\<close>) on old browsers. The ratio is a rational and the product
  \<^verbatim>\<open>windowWidth() * pixelRatio()\<close> is exact here. The machine rounds the product; the rounded
  product is the exact product of the width and a ratio nearby, and what is proved below of
  the selection is proved for every ratio, so for every effective width.
\<close>

record window =
  innerWidth :: nat
  documentElement_clientWidth :: nat
  body_clientWidth :: nat
  screen_width :: nat
  devicePixelRatio :: "rat option"

text \<open>\<^verbatim>\<open>window.devicePixelRatio || 1\<close>: an absent or zero ratio is falsy.\<close>

definition pixelRatio :: "window \<Rightarrow> rat" where
  "pixelRatio win =
     (case devicePixelRatio win of
        None \<Rightarrow> 1
      | Some r \<Rightarrow> if r = 0 then 1 else r)"

text \<open>The chain of \<^verbatim>\<open>||\<close> yields the first non-zero width, or the last operand.\<close>

definition windowWidth :: "window \<Rightarrow> nat" where
  "windowWidth win =
     (if innerWidth win \<noteq> 0 then innerWidth win
      else if documentElement_clientWidth win \<noteq> 0 then documentElement_clientWidth win
      else if body_clientWidth win \<noteq> 0 then body_clientWidth win
      else screen_width win)"

text \<open>
  A breakpoint dataset is an object whose property names are widths written as decimal
  integers (\<^verbatim>\<open>{"0": ..., "768": ...}\<close>, parsed from a \<^verbatim>\<open>data-*\<close> attribute by
  \<^verbatim>\<open>JSON.parse\<close>). It is the list of its properties in the order \<^verbatim>\<open>Object.keys\<close> lists
  them; a key is the number its name denotes, which is what both \<^verbatim>\<open>parseInt(w)\<close> and the
  numeric comparison \<^verbatim>\<open>ww >= xl\<close> make of such a name. The language enumerates integer
  property names (array indices, which pixel widths are) in ascending order, each once:
  that is \<open>integer_keyed\<close>.
  A value of the language that may be \<^verbatim>\<open>undefined\<close> is an option, \<open>None\<close> for
  \<^verbatim>\<open>undefined\<close>; the values stored in a parsed dataset are never \<^verbatim>\<open>undefined\<close>.
\<close>

type_synonym 'v dataset = "(nat \<times> 'v) list"

definition integer_keyed :: "'v dataset \<Rightarrow> bool" where
  "integer_keyed dataset = sorted_wrt (<) (map fst dataset)"

definition Object_keys :: "'v dataset \<Rightarrow> nat list" where
  "Object_keys dataset = map fst dataset"

text \<open>\<^verbatim>\<open>keys[i]\<close> at the two ends: \<^verbatim>\<open>undefined\<close> when the array is empty.\<close>

definition first_key :: "nat list \<Rightarrow> nat option" where
  "first_key keys = (case keys of [] \<Rightarrow> None | k # _ \<Rightarrow> Some k)"

definition last_key :: "nat list \<Rightarrow> nat option" where
  "last_key keys = (if keys = [] then None else Some (last keys))"

text \<open>\<^verbatim>\<open>dataset[v]\<close>; the name \<^verbatim>\<open>undefined\<close> is no property of a dataset.\<close>

definition get_prop :: "'v dataset \<Rightarrow> nat option \<Rightarrow> 'v option" where
  "get_prop dataset key = (case key of None \<Rightarrow> None | Some k \<Rightarrow> map_of dataset k)"

text \<open>\<^verbatim>\<open>Array.prototype.shift\<close> and \<^verbatim>\<open>pop\<close>, for the element they return.\<close>

definition shift :: "'a option list \<Rightarrow> 'a option" where
  "shift arr = (case arr of [] \<Rightarrow> None | x # _ \<Rightarrow> x)"

definition pop :: "'a option list \<Rightarrow> 'a option" where
  "pop arr = (if arr = [] then None else last arr)"

text \<open>\<^verbatim>\<open>ww >= xl\<close>: comparing with \<^verbatim>\<open>undefined\<close> is false.\<close>

definition ge_key :: "rat \<Rightarrow> nat option \<Rightarrow> bool" where
  "ge_key ww key = (case key of None \<Rightarrow> False | Some k \<Rightarrow> of_nat k \<le> ww)"

definition activeWidth :: "window \<Rightarrow> 'v dataset \<Rightarrow> bool \<Rightarrow> 'v option" where
  "activeWidth win dataset mobileFirst =
     (let keys = Object_keys dataset;
          xs = first_key keys;
          xl = last_key keys;
          pr = of_nat (windowWidth win) * pixelRatio win;
          ww = (if mobileFirst then of_nat (windowWidth win) else pr);
          mw = (\<lambda>w. if mobileFirst then of_nat w \<le> ww else ww \<le> of_nat w);
          found = map (\<lambda>v. get_prop dataset (Some v)) (filter mw keys);
          data = (if mobileFirst then pop found else shift found)
      in case data of
           None \<Rightarrow> get_prop dataset (if ge_key ww xl then xl else xs)
         | Some d \<Rightarrow> Some d)"

text \<open>The effective width of the desktop-first mode.\<close>

definition effective_width :: "window \<Rightarrow> rat" where
  "effective_width win = of_nat (windowWidth win) * pixelRatio win"

text \<open>The dataset and the window of the documented scenario.\<close>

definition scenario_dataset :: "string dataset" where
  "scenario_dataset = [(0, ''a.jpg''), (768, ''b.jpg''), (1200, ''c.jpg'')]"

definition desktop_window :: "nat \<Rightarrow> window" where
  "desktop_window w =
     \<lparr>innerWidth = w, documentElement_clientWidth = w, body_clientWidth = w,
      screen_width = w, devicePixelRatio = Some 1\<rparr>"

section \<open>The document and its effects\<close>

text \<open>
  An element of the page, with what the loaders read and write: its lower-case tag name
  (\<^verbatim>\<open>nodeName.toLowerCase()\<close>), its attributes other than \<^verbatim>\<open>class\<close>, its class list, its
  parent, the
  \<^verbatim>\<open>source\<close> elements below it (what \<^verbatim>\<open>getElementsByTagName('source')\<close> returns), the
  \<^verbatim>\<open>src\<close> property of an element whose interface has none of its own, and the inline
  background image.
\<close>

type_synonym node = nat

record element =
  localName :: string
  attributes :: "string \<rightharpoonup> string"
  classList :: "string list"
  parentNode :: "node option"
  source_elements :: "node list"
  src_expando :: "string option"
  style_backgroundImage :: "string option"

type_synonym dom = "node \<Rightarrow> element"

text \<open>
  Every effect on the page and on the network is appended to a trace, in the order in
  which the code performs it.
\<close>

datatype event =
    Set_attribute node string string
  | Remove_attribute node string
  | Assign_src node string
  | Class_add node string
  | Set_backgroundImage node string
  | Video_load node
  | New_Image node "string option" "string option"
  | Call_success node int
  | Call_error node int
  | Dispatch node string

text \<open>A probe is the detached image of one preload: the element and \<^verbatim>\<open>isBg\<close>.\<close>

type_synonym probe = "node \<times> bool"

text \<open>
  The state outside the loader instances: the page, the window, the trace, the probes
  whose load or error event has not fired yet, and the private variables of the Bio module
  (\<^verbatim>\<open>_bioTick\<close>, \<^verbatim>\<open>_disconnected\<close>, \<^verbatim>\<open>_observed\<close>), of which there is one copy for all
  instances.
\<close>

record world =
  document :: dom
  defaultView :: window
  trace :: "event list"
  pending :: "probe list"
  bioTick :: int
  disconnected_var :: bool
  observed_var :: bool

definition hasAttribute :: "world \<Rightarrow> node \<Rightarrow> string \<Rightarrow> bool" where
  "hasAttribute w el name = (attributes (document w el) name \<noteq> None)"

definition getAttribute :: "world \<Rightarrow> node \<Rightarrow> string \<Rightarrow> string option" where
  "getAttribute w el name = attributes (document w el) name"

definition classList_contains :: "world \<Rightarrow> node \<Rightarrow> string \<Rightarrow> bool" where
  "classList_contains w el name = (name \<in> set (classList (document w el)))"

definition update_element :: "node \<Rightarrow> (element \<Rightarrow> element) \<Rightarrow> event \<Rightarrow> world \<Rightarrow> world" where
  "update_element el f ev w =
     w\<lparr>document := (document w)(el := f (document w el)), trace := trace w @ [ev]\<rparr>"

definition setAttribute :: "node \<Rightarrow> string \<Rightarrow> string \<Rightarrow> world \<Rightarrow> world" where
  "setAttribute el name v =
     update_element el (\<lambda>e. e\<lparr>attributes := (attributes e)(name \<mapsto> v)\<rparr>) (Set_attribute el name v)"

definition removeAttribute :: "node \<Rightarrow> string \<Rightarrow> world \<Rightarrow> world" where
  "removeAttribute el name =
     update_element el (\<lambda>e. e\<lparr>attributes := (attributes e)(name := None)\<rparr>) (Remove_attribute el name)"

text \<open>The elements whose interface reflects the \<^verbatim>\<open>src\<close> attribute as a property.\<close>

definition reflects_src :: "string \<Rightarrow> bool" where
  "reflects_src tag =
     (tag \<in> set [''img'', ''iframe'', ''embed'', ''video'', ''audio'', ''source'', ''track'',
                 ''input'', ''script'', ''frame''])"

text \<open>\<^verbatim>\<open>el.src = v\<close>: the attribute where it is reflected, a plain property elsewhere.\<close>

definition assign_src :: "node \<Rightarrow> string \<Rightarrow> world \<Rightarrow> world" where
  "assign_src el v =
     update_element el
       (\<lambda>e. if reflects_src (localName e) then e\<lparr>attributes := (attributes e)(''src'' \<mapsto> v)\<rparr>
            else e\<lparr>src_expando := Some v\<rparr>)
       (Assign_src el v)"

text \<open>\<^verbatim>\<open>typeof el.src === 'undefined'\<close>\<close>

definition src_undefined :: "element \<Rightarrow> bool" where
  "src_undefined e = (\<not> reflects_src (localName e) \<and> src_expando e = None)"

definition classList_add :: "node \<Rightarrow> string \<Rightarrow> world \<Rightarrow> world" where
  "classList_add el name =
     update_element el
       (\<lambda>e. if name \<in> set (classList e) then e else e\<lparr>classList := classList e @ [name]\<rparr>)
       (Class_add el name)"

definition set_backgroundImage :: "node \<Rightarrow> string \<Rightarrow> world \<Rightarrow> world" where
  "set_backgroundImage el v =
     update_element el (\<lambda>e. e\<lparr>style_backgroundImage := Some v\<rparr>) (Set_backgroundImage el v)"

definition video_load :: "node \<Rightarrow> world \<Rightarrow> world" where
  "video_load el w = w\<lparr>trace := trace w @ [Video_load el]\<rparr>"

section \<open>dBlazy: attributes and events\<close>

text \<open>\<^verbatim>\<open>dBlazy.equal\<close>; the element may be \<^verbatim>\<open>null\<close>.\<close>

definition equal_db :: "world \<Rightarrow> node option \<Rightarrow> string \<Rightarrow> bool" where
  "equal_db w el str = (case el of None \<Rightarrow> False | Some n \<Rightarrow> localName (document w n) = str)"

definition setAttr :: "node \<Rightarrow> string \<Rightarrow> bool \<Rightarrow> world \<Rightarrow> world" where
  "setAttr el attr remove w =
     (case getAttribute w el (''data-'' @ attr) of
        None \<Rightarrow> w
      | Some dataAttr \<Rightarrow>
          let w1 = (if attr = ''src'' then assign_src el dataAttr w
                    else setAttribute el attr dataAttr w)
          in if remove then removeAttribute el (''data-'' @ attr) w1 else w1)"

definition setAttrs :: "node \<Rightarrow> string list \<Rightarrow> bool \<Rightarrow> world \<Rightarrow> world" where
  "setAttrs el attrs remove w = fold (\<lambda>src. setAttr el src remove) attrs w"

text \<open>The attribute name may be missing or empty (\<^verbatim>\<open>attr || ...\<close>).\<close>

definition setAttrsWithSources :: "node \<Rightarrow> string option \<Rightarrow> bool \<Rightarrow> world \<Rightarrow> world" where
  "setAttrsWithSources el attr remove w =
     (let parent = parentNode (document w el);
          isPicture = equal_db w parent ''picture'';
          targets = (case parent of
                       None \<Rightarrow> source_elements (document w el)
                     | Some p \<Rightarrow> if isPicture then source_elements (document w p)
                                else source_elements (document w el));
          fallback = (if isPicture then ''srcset'' else ''src'');
          attr1 = (case attr of None \<Rightarrow> fallback | Some a \<Rightarrow> if a = [] then fallback else a)
      in fold (\<lambda>source. setAttr source attr1 remove) targets w)"

definition removeAttrs :: "node \<Rightarrow> string list \<Rightarrow> world \<Rightarrow> world" where
  "removeAttrs el attrs w = fold (\<lambda>attr. removeAttribute el (''data-'' @ attr)) attrs w"

text \<open>\<^verbatim>\<open>dBlazy.trigger\<close> dispatches a custom event on the element.\<close>

definition trigger :: "node \<Rightarrow> string \<Rightarrow> world \<Rightarrow> world" where
  "trigger el eventName w = w\<lparr>trace := trace w @ [Dispatch el eventName]\<rparr>"

section \<open>Bio: the observer engine\<close>

text \<open>
  A callback of the options is a function supplied by the caller. The loader calls it with
  the element, the status, the parent (which the media loader never passes) and the
  options; here it is a function of the element and the status that may rewrite the page
  and returns, and each call is recorded in the trace.
\<close>

type_synonym callback = "node \<Rightarrow> int \<Rightarrow> dom \<Rightarrow> dom"

text \<open>
  The options after the merge with the defaults (\<^verbatim>\<open>extend({}, me.defaults, options)\<close>), for
  the keys that the methods below read. The class names are tokens that
  \<^verbatim>\<open>classList.add\<close> accepts.
\<close>

record options =
  opt_disconnect :: bool
  opt_error :: "callback option"
  opt_success :: "callback option"
  successClass :: string
  errorClass :: string
  bgClass :: string

definition defaults :: options where
  "defaults =
     \<lparr>opt_disconnect = False, opt_error = None, opt_success = None,
      successClass = ''b-loaded'', errorClass = ''b-error'', bgClass = ''b-bg''\<rparr>"

text \<open>
  An instance. \<open>elms\<close> is \<^verbatim>\<open>null\<close> after a disconnect; \<open>observer\<close> is the list of targets
  that the instance's IntersectionObserver watches, or \<^verbatim>\<open>null\<close> after \<^verbatim>\<open>destroy\<close>.
\<close>

record bio =
  options :: options
  count :: int
  counted :: int
  erCounted :: int
  elms :: "node list option"
  observer :: "node list option"
  me_windowWidth :: "nat option"

datatype js_error = TypeError

text \<open>The fields that an instance finds on the prototype.\<close>

definition Bio_prototype :: "options \<Rightarrow> bio" where
  "Bio_prototype opts =
     \<lparr>options = opts, count = 0, counted = - 1, erCounted = 0, elms = None,
      observer = None, me_windowWidth = None\<rparr>"

abbreviation ok_status :: int where "ok_status \<equiv> 1"
abbreviation er_status :: int where "er_status \<equiv> - 1"

definition isLoaded :: "bio \<Rightarrow> world \<Rightarrow> node \<Rightarrow> bool" where
  "isLoaded me w el = classList_contains w el (successClass (options me))"

definition invoke :: "callback option \<Rightarrow> (node \<Rightarrow> int \<Rightarrow> event) \<Rightarrow> node \<Rightarrow> int \<Rightarrow> world \<Rightarrow> world" where
  "invoke cb ev el status w =
     (case cb of
        None \<Rightarrow> w
      | Some f \<Rightarrow> w\<lparr>document := f el status (document w), trace := trace w @ [ev el status]\<rparr>)"

definition success :: "node \<Rightarrow> int \<Rightarrow> bio \<Rightarrow> world \<Rightarrow> bio \<times> world" where
  "success el status me w =
     (let w1 = invoke (opt_success (options me)) Call_success el status w
      in (if 0 < erCounted me then me\<lparr>erCounted := erCounted me - 1\<rparr> else me, w1))"

definition error :: "node \<Rightarrow> int \<Rightarrow> bio \<Rightarrow> world \<Rightarrow> bio \<times> world" where
  "error el status me w =
     (let w1 = invoke (opt_error (options me)) Call_error el status w
      in (me\<lparr>erCounted := erCounted me + 1\<rparr>, w1))"

definition loaded :: "node \<Rightarrow> int \<Rightarrow> bio \<Rightarrow> world \<Rightarrow> bio \<times> world" where
  "loaded el status me w =
     (let w1 = classList_add el
                 (if status = ok_status then successClass (options me)
                  else errorClass (options me)) w
      in if status = ok_status then success el status me w1 else error el status me w1)"

text \<open>\<^verbatim>\<open>observer.observe(entry)\<close> adds a target once.\<close>

definition observer_observe :: "node \<Rightarrow> node list \<Rightarrow> node list" where
  "observer_observe entry targets = (if entry \<in> set targets then targets else targets @ [entry])"

definition observe :: "bio \<Rightarrow> world \<Rightarrow> js_error + bio \<times> world" where
  "observe me w =
     (case elms me of
        None \<Rightarrow> Inl TypeError
      | Some es \<Rightarrow>
          let w1 = w\<lparr>bioTick := int (length es)\<rparr>;
              todo = filter (\<lambda>entry. \<not> isLoaded me w1 entry) es
          in (case observer me of
                None \<Rightarrow> if todo = [] then Inr (me, w1) else Inl TypeError
              | Some targets \<Rightarrow>
                  Inr (me\<lparr>observer := Some (fold observer_observe todo targets)\<rparr>, w1)))"

text \<open>
  \<open>matching\<close> is what the root holds of elements that match \<^verbatim>\<open>options.selector\<close>, in
  document order; the query adds \<^verbatim>\<open>:not(.successClass)\<close>.
\<close>

definition init :: "node list \<Rightarrow> bio \<Rightarrow> world \<Rightarrow> js_error + bio \<times> world" where
  "init matching me w =
     (let found = filter (\<lambda>n. \<not> classList_contains w n (successClass (options me))) matching;
          me1 = me\<lparr>elms := Some found, count := int (length found),
                   me_windowWidth := Some (windowWidth (defaultView w)),
                   observer := Some []\<rparr>
      in if \<not> observed_var w then
           (case observe me1 w of
              Inl e \<Rightarrow> Inl e
            | Inr (me2, w2) \<Rightarrow> Inr (me2, w2\<lparr>observed_var := True\<rparr>))
         else Inr (me1, w))"

definition Bio :: "options \<Rightarrow> node list \<Rightarrow> world \<Rightarrow> js_error + bio \<times> world" where
  "Bio opts matching w =
     init matching (Bio_prototype opts) (w\<lparr>disconnected_var := False, observed_var := False\<rparr>)"

definition disconnect :: "bool \<Rightarrow> bio \<Rightarrow> world \<Rightarrow> js_error + bio \<times> world" where
  "disconnect force me w =
     (if 0 < erCounted me \<and> \<not> force then Inr (me, w)
      else if ((bioTick w = 0 \<or> count me = counted me) \<and> opt_disconnect (options me)) \<or> force
      then (case observer me of
              None \<Rightarrow> Inl TypeError
            | Some targets \<Rightarrow>
                Inr (me\<lparr>observer := Some [], count := 0, elms := None\<rparr>,
                     w\<lparr>disconnected_var := True\<rparr>))
      else Inr (me, w))"

definition destroy :: "bool \<Rightarrow> bio \<Rightarrow> world \<Rightarrow> js_error + bio \<times> world" where
  "destroy force me w =
     (case disconnect force me w of
        Inl e \<Rightarrow> Inl e
      | Inr (me1, w1) \<Rightarrow> Inr (me1\<lparr>observer := None\<rparr>, w1))"

definition disconnected :: "bio \<Rightarrow> world \<Rightarrow> bool" where
  "disconnected me w = disconnected_var w"

text \<open>The loading hook of the engine itself does nothing.\<close>

definition Bio_lazyLoad :: "node \<Rightarrow> bio \<Rightarrow> world \<Rightarrow> bio \<times> world" where
  "Bio_lazyLoad el me w = (me, w)"

text \<open>A run of the two outcome operations, and of \<open>loaded\<close>, which dispatches to them.\<close>

datatype operation = Op_success node int | Op_error node int | Op_loaded node int

fun run_operations :: "operation list \<Rightarrow> bio \<Rightarrow> world \<Rightarrow> bio \<times> world" where
  "run_operations [] me w = (me, w)"
| "run_operations (Op_success el status # ops) me w =
     (case success el status me w of (me1, w1) \<Rightarrow> run_operations ops me1 w1)"
| "run_operations (Op_error el status # ops) me w =
     (case error el status me w of (me1, w1) \<Rightarrow> run_operations ops me1 w1)"
| "run_operations (Op_loaded el status # ops) me w =
     (case loaded el status me w of (me1, w1) \<Rightarrow> run_operations ops me1 w1)"

section \<open>BioMedia: the media loader\<close>

text \<open>The constructor applies the constructor of Bio.\<close>

definition BioMedia :: "options \<Rightarrow> node list \<Rightarrow> world \<Rightarrow> js_error + bio \<times> world" where
  "BioMedia opts matching w = Bio opts matching w"

abbreviation bgSources :: "string list" where "bgSources \<equiv> [''src'']"
abbreviation imgSources :: "string list" where "imgSources \<equiv> [''srcset'', ''src'']"

definition url_value :: "string \<Rightarrow> string" where
  "url_value v = ''url('' @ [CHR 0x22] @ v @ [CHR 0x22] @ '')''"

definition setBg :: "node \<Rightarrow> world \<Rightarrow> world" where
  "setBg el w =
     (case getAttribute w el ''data-src'' of
        None \<Rightarrow> w
      | Some v \<Rightarrow> removeAttribute el ''src'' (set_backgroundImage el (url_value v) w))"

text \<open>
  The executor of the promise runs at once: it creates the probe and gives it the source
  (\<^verbatim>\<open>null\<close> when the attribute is missing) and, when there is one, the source set.
\<close>

definition promise :: "node \<Rightarrow> bool \<Rightarrow> world \<Rightarrow> world" where
  "promise el isBg w =
     (let src = getAttribute w el (if isBg then ''data-src'' else ''data-src'');
          srcset = (if hasAttribute w el ''data-srcset'' then getAttribute w el ''data-srcset''
                    else None)
      in w\<lparr>trace := trace w @ [New_Image el src srcset], pending := pending w @ [(el, isBg)]\<rparr>)"

definition applyAttrs :: "node \<Rightarrow> bool \<Rightarrow> world \<Rightarrow> world" where
  "applyAttrs el isBg w = (if isBg then setBg el w else setAttrs el imgSources False w)"

text \<open>\<^verbatim>\<open>setImage\<close> returns the promise with its three reactions, which run when it settles.\<close>

definition setImage :: "node \<Rightarrow> bool \<Rightarrow> world \<Rightarrow> world" where
  "setImage el isBg w = promise el isBg w"

definition setImage_then :: "node \<Rightarrow> bool \<Rightarrow> int \<Rightarrow> bio \<Rightarrow> world \<Rightarrow> bio \<times> world" where
  "setImage_then el isBg status me w =
     (case loaded el status me w of
        (me1, w1) \<Rightarrow> (me1, removeAttrs el (if isBg then bgSources else imgSources) w1))"

definition setImage_catch :: "node \<Rightarrow> int \<Rightarrow> bio \<Rightarrow> world \<Rightarrow> bio \<times> world" where
  "setImage_catch el status me w =
     (case loaded el status me w of
        (me1, w1) \<Rightarrow> (me1, removeAttribute el ''data-bio-hit'' w1))"

definition setImage_finally :: "node \<Rightarrow> world \<Rightarrow> world" where
  "setImage_finally el w = trigger el ''bio.finally'' w"

text \<open>
  The browser fires the load or the error event of a pending probe. The handler applies the
  attributes and settles the promise; the reaction of that outcome and the final one run
  before any other event is handled.
\<close>

datatype outcome = Onload | Onerror

definition settle :: "outcome \<Rightarrow> probe \<Rightarrow> bio \<Rightarrow> world \<Rightarrow> bio \<times> world" where
  "settle out p me w =
     (if p \<notin> set (pending w) then (me, w)
      else
        let el = fst p; isBg = snd p;
            w0 = w\<lparr>pending := remove1 p (pending w)\<rparr>;
            w1 = applyAttrs el isBg w0
        in case (case out of
                   Onload \<Rightarrow> setImage_then el isBg ok_status me w1
                 | Onerror \<Rightarrow> setImage_catch el er_status me w1) of
             (me2, w2) \<Rightarrow> (me2, setImage_finally el w2))"

text \<open>\<^verbatim>\<open>el.getAttribute(name) && ...\<close>: a missing or empty value is falsy.\<close>

definition truthy :: "string option \<Rightarrow> bool" where
  "truthy v = (case v of None \<Rightarrow> False | Some s \<Rightarrow> s \<noteq> [])"

text \<open>The branches of the loading hook, between its guard and the marking.\<close>

definition lazyLoad_branches :: "node \<Rightarrow> bio \<Rightarrow> world \<Rightarrow> bio \<times> world" where
  "lazyLoad_branches el me w =
     (let parent = parentNode (document w el);
          isImage = equal_db w (Some el) ''img'';
          isBg = (src_undefined (document w el) \<and> classList_contains w el (bgClass (options me)));
          isPicture = equal_db w parent ''picture'';
          isVideo = equal_db w (Some el) ''video''
      in if isPicture then
           loaded el ok_status me
             (setAttr el ''src'' True (setAttrsWithSources el (Some ''srcset'') True w))
         else if isVideo then
           loaded el ok_status me (video_load el (setAttrsWithSources el (Some ''src'') True w))
         else if isImage \<or> isBg then (me, setImage el isBg w)
         else if truthy (getAttribute w el ''data-src'') \<and> hasAttribute w el ''src'' then
           loaded el ok_status me (setAttr el ''src'' True w)
         else (me, w))"

definition lazyLoad :: "node \<Rightarrow> bio \<Rightarrow> world \<Rightarrow> bio \<times> world" where
  "lazyLoad el me w =
     (if hasAttribute w el ''data-bio-hit'' then (me, w)
      else case lazyLoad_branches el me w of
             (me1, w1) \<Rightarrow> Bio_lazyLoad el me1 (setAttribute el ''data-bio-hit'' ''1'' w1))"

section \<open>The orchestrator's callback\<close>

text \<open>
  \<^verbatim>\<open>Drupal.blazy.globals\<close> installs \<^verbatim>\<open>Drupal.blazy.clearing\<close> as the success and the error
  callback of the loader it runs. Of the steps of \<^verbatim>\<open>clearing\<close>, \<^verbatim>\<open>reevaluate\<close> is the one that
  reads and writes the error class of the element: when the loader instance is there
  (\<^verbatim>\<open>me.init !== null\<close>) and the element has the class, it removes the class, and sets a
  timer that loads the element again later.
\<close>

definition reevaluate :: "string \<Rightarrow> bool \<Rightarrow> node \<Rightarrow> dom \<Rightarrow> dom" where
  "reevaluate error_class has_init el d =
     (if has_init \<and> error_class \<in> set (classList (d el))
      then d(el := (d el)\<lparr>classList := removeAll error_class (classList (d el))\<rparr>)
      else d)"

text \<open>
  The callback as the orchestrator has it: its options carry the error class \<^verbatim>\<open>b-error\<close>,
  which is also the one of the loader, and its \<^verbatim>\<open>init\<close> holds the loader by the time a probe
  fails.
\<close>

definition reevaluate_callback :: callback where
  "reevaluate_callback el status d = reevaluate ''b-error'' True el d"

section \<open>What a callback leaves alone\<close>

definition keeps_attribute :: "callback option \<Rightarrow> node \<Rightarrow> string \<Rightarrow> bool" where
  "keeps_attribute cb el name =
     (case cb of
        None \<Rightarrow> True
      | Some f \<Rightarrow> \<forall>status d. attributes (f el status d el) name = attributes (d el) name)"

definition keeps_class :: "callback option \<Rightarrow> node \<Rightarrow> string \<Rightarrow> bool" where
  "keeps_class cb el name =
     (case cb of
        None \<Rightarrow> True
      | Some f \<Rightarrow> \<forall>status d. name \<in> set (classList (d el)) \<longrightarrow> name \<in> set (classList (f el status d el)))"

definition keeps_background :: "callback option \<Rightarrow> node \<Rightarrow> bool" where
  "keeps_background cb el =
     (case cb of
        None \<Rightarrow> True
      | Some f \<Rightarrow> \<forall>status d. style_backgroundImage (f el status d el) = style_backgroundImage (d el))"

text \<open>The number of probes that a trace has created.\<close>

definition is_New_Image :: "event \<Rightarrow> bool" where
  "is_New_Image ev = (case ev of New_Image _ _ _ \<Rightarrow> True | _ \<Rightarrow> False)"

definition probes_created :: "world \<Rightarrow> nat" where
  "probes_created w = length (filter is_New_Image (trace w))"

text \<open>A step that creates and settles no probe and only appends to the trace.\<close>

definition quiet :: "world \<Rightarrow> world \<Rightarrow> bool" where
  "quiet w w' =
     (pending w' = pending w \<and> prefix (trace w) (trace w') \<and>
      probes_created w' = probes_created w)"

section \<open>A page for the examples\<close>

text \<open>
  A page of three elements: a lazy image (node 0) below a plain block (node 1), and a block
  that takes its image as background (node 2).
\<close>

definition lazy_img :: element where
  "lazy_img =
     \<lparr>localName = ''img'',
      attributes = [''data-src'' \<mapsto> ''x.jpg'', ''data-srcset'' \<mapsto> ''x.jpg 1x, x2.jpg 2x''],
      classList = [''b-lazy''], parentNode = Some 1, source_elements = [],
      src_expando = None, style_backgroundImage = None\<rparr>"

definition plain_div :: element where
  "plain_div =
     \<lparr>localName = ''div'', attributes = Map.empty, classList = [], parentNode = None,
      source_elements = [], src_expando = None, style_backgroundImage = None\<rparr>"

definition lazy_bg :: element where
  "lazy_bg =
     \<lparr>localName = ''div'', attributes = [''data-src'' \<mapsto> ''y.jpg''],
      classList = [''b-lazy'', ''b-bg''], parentNode = Some 1, source_elements = [],
      src_expando = None, style_backgroundImage = None\<rparr>"

definition page :: dom where
  "page = (\<lambda>n. plain_div)(0 := lazy_img, 2 := lazy_bg)"

definition start_world :: world where
  "start_world =
     \<lparr>document = page, defaultView = desktop_window 900, trace = [], pending = [],
      bioTick = 0, disconnected_var = False, observed_var = False\<rparr>"

text \<open>The instance that the constructor returns on this page, and the world it leaves.\<close>

definition loader :: "options \<Rightarrow> bio" where
  "loader opts =
     \<lparr>options = opts, count = 2, counted = - 1, erCounted = 0, elms = Some [0, 2],
      observer = Some [0, 2], me_windowWidth = Some 900\<rparr>"

definition observing_world :: world where
  "observing_world = start_world\<lparr>bioTick := 2, observed_var := True\<rparr>"

text \<open>A success callback that marks the element once more, as a theme might.\<close>

definition marking_callback :: callback where
  "marking_callback el status d = d(el := (d el)\<lparr>classList := classList (d el) @ [''is-b-loaded'']\<rparr>)"

text \<open>The options of a theme with that callback, and those of the orchestrator.\<close>

definition themed :: options where
  "themed = defaults\<lparr>opt_success := Some marking_callback\<rparr>"

definition orchestrated :: options where
  "orchestrated = defaults\<lparr>opt_error := Some reevaluate_callback\<rparr>"

section \<open>Breakpoint selection\<close>

lemma map_of_integer_keyed:
  "integer_keyed D \<Longrightarrow> (k, v) \<in> set D \<Longrightarrow> map_of D k = Some v"
proof -
  assume "integer_keyed D" and mem: "(k, v) \<in> set D"
  then have "distinct (map fst D)"
    unfolding integer_keyed_def using strict_sorted_iff by blast
  then show ?thesis using mem by (rule map_of_is_SomeI)
qed

lemma hd_filter_least:
  assumes "sorted_wrt (<) ks" and "k \<in> set ks" and "P k"
    and "\<forall>k'\<in>set ks. P k' \<longrightarrow> k \<le> k'"
  shows "\<exists>rest. filter P ks = (k::nat) # rest"
  using assms
proof (induction ks)
  case Nil
  then show ?case by simp
next
  case (Cons a ks)
  show ?case
  proof (cases "P a")
    case True
    then have "k \<le> a" using Cons.prems by simp
    moreover have "a \<le> k" using Cons.prems(1,2) by auto
    ultimately show ?thesis using True by simp
  next
    case False
    then have "k \<in> set ks" using Cons.prems by auto
    then show ?thesis using Cons False by auto
  qed
qed

lemma last_greatest:
  "sorted_wrt (<) ks \<Longrightarrow> ks \<noteq> [] \<Longrightarrow> \<forall>k\<in>set ks. (k::nat) \<le> last ks"
  by (induction ks) (auto simp: less_imp_le)

text \<open>
  Claim C1. In the desktop-first mode (\<open>mobileFirst = False\<close>), for every dataset and every
  window, with the effective width the window width times the device pixel ratio:
  \<^item> when \<open>k\<close> is the smallest key that is at least the effective width, \<open>activeWidth\<close>
    returns the value stored under \<open>k\<close>;
  \<^item> when no key is at least the effective width and the effective width is at least the
    last key, it returns the value of the last key, which is the largest;
  \<^item> when no key is at least the effective width and the effective width is not at least
    the last key, it returns the value of the first key. This last case is that of the empty
    dataset, where there is no first key and the result is \<^verbatim>\<open>undefined\<close>.
\<close>

theorem activeWidth_desktop_first:
  assumes "integer_keyed D"
  shows "((k, v) \<in> set D \<and> effective_width win \<le> of_nat k \<and>
            (\<forall>k'\<in>set (Object_keys D). effective_width win \<le> of_nat k' \<longrightarrow> k \<le> k')
          \<longrightarrow> activeWidth win D False = Some v) \<and>
         ((\<forall>k\<in>set (Object_keys D). of_nat k < effective_width win) \<and> D \<noteq> []
          \<longrightarrow> of_nat (fst (last D)) \<le> effective_width win \<and>
              (\<forall>k\<in>set (Object_keys D). k \<le> fst (last D)) \<and>
              activeWidth win D False = Some (snd (last D))) \<and>
         ((\<forall>k\<in>set (Object_keys D). of_nat k < effective_width win) \<and>
            \<not> ge_key (effective_width win) (last_key (Object_keys D))
          \<longrightarrow> D = [] \<and> activeWidth win D False = get_prop D (first_key (Object_keys D)))"
proof (intro conjI impI)
  assume h: "(k, v) \<in> set D \<and> effective_width win \<le> of_nat k \<and>
            (\<forall>k'\<in>set (Object_keys D). effective_width win \<le> of_nat k' \<longrightarrow> k \<le> k')"
  have srt: "sorted_wrt (<) (map fst D)" using assms by (simp add: integer_keyed_def)
  have kin: "k \<in> set (map fst D)" using h by force
  obtain rest where f: "filter (\<lambda>w. effective_width win \<le> of_nat w) (map fst D) = k # rest"
    using hd_filter_least[OF srt kin, of "\<lambda>w. effective_width win \<le> of_nat w"] h
    by (auto simp: Object_keys_def)
  have "map_of D k = Some v" using assms h by (simp add: map_of_integer_keyed)
  then show "activeWidth win D False = Some v"
    using f by (simp add: activeWidth_def Object_keys_def effective_width_def shift_def get_prop_def)
next
  assume h: "(\<forall>k\<in>set (Object_keys D). of_nat k < effective_width win) \<and> D \<noteq> []"
  have srt: "sorted_wrt (<) (map fst D)" using assms by (simp add: integer_keyed_def)
  have lastin: "last D \<in> set D" using h by simp
  then have lk: "fst (last D) \<in> set (Object_keys D)" by (simp add: Object_keys_def)
  show le: "of_nat (fst (last D)) \<le> effective_width win" using h lk by fastforce
  show "\<forall>k\<in>set (Object_keys D). k \<le> fst (last D)"
    using last_greatest[OF srt] h by (simp add: Object_keys_def last_map)
  have nofilter: "filter (\<lambda>w. effective_width win \<le> of_nat w) (map fst D) = []"
    using h by (auto simp: filter_empty_conv Object_keys_def)
  have "map_of D (fst (last D)) = Some (snd (last D))"
    using assms lastin by (simp add: map_of_integer_keyed)
  then show "activeWidth win D False = Some (snd (last D))"
    using nofilter h le
    by (simp add: activeWidth_def Object_keys_def effective_width_def shift_def get_prop_def
        last_key_def ge_key_def last_map)
next
  assume h: "(\<forall>k\<in>set (Object_keys D). of_nat k < effective_width win) \<and>
            \<not> ge_key (effective_width win) (last_key (Object_keys D))"
  show e: "D = []"
  proof (rule ccontr)
    assume ne: "D \<noteq> []"
    then have "fst (last D) \<in> set (Object_keys D)" by (simp add: Object_keys_def)
    then have "of_nat (fst (last D)) \<le> effective_width win" using h by fastforce
    then show False using h ne
      by (simp add: ge_key_def last_key_def Object_keys_def last_map)
  qed
  show "activeWidth win D False = get_prop D (first_key (Object_keys D))"
    using e by (simp add: activeWidth_def Object_keys_def shift_def get_prop_def
        last_key_def first_key_def ge_key_def)
qed

theorem activeWidth_desktop_first_witness:
  "integer_keyed scenario_dataset \<and>
   activeWidth (desktop_window 700) scenario_dataset False = Some ''b.jpg'' \<and>
   activeWidth (desktop_window 1300) scenario_dataset False = Some ''c.jpg'' \<and>
   activeWidth (desktop_window 1300) ([] :: string dataset) False = None"
proof -
  have ik: "integer_keyed scenario_dataset"
    by (simp add: integer_keyed_def scenario_dataset_def)
  have ew: "effective_width (desktop_window n) = of_nat n" for n
    by (simp add: effective_width_def desktop_window_def windowWidth_def pixelRatio_def)
  have a: "activeWidth (desktop_window 700) scenario_dataset False = Some ''b.jpg''"
    using activeWidth_desktop_first
      [OF ik, where k = 768 and v = "''b.jpg''" and win = "desktop_window 700"]
    by (simp add: ew scenario_dataset_def Object_keys_def)
  have b: "activeWidth (desktop_window 1300) scenario_dataset False = Some ''c.jpg''"
    using activeWidth_desktop_first [OF ik, where win = "desktop_window 1300"]
    by (simp add: ew scenario_dataset_def Object_keys_def)
  have ie: "integer_keyed ([] :: string dataset)" by (simp add: integer_keyed_def)
  have c: "activeWidth (desktop_window 1300) ([] :: string dataset) False = None"
    using activeWidth_desktop_first [OF ie, where win = "desktop_window 1300"]
    by (simp add: ew Object_keys_def last_key_def ge_key_def first_key_def get_prop_def)
  show ?thesis using ik a b c by simp
qed

lemmas activeWidth_defs = activeWidth_def scenario_dataset_def desktop_window_def windowWidth_def
  pixelRatio_def Object_keys_def first_key_def last_key_def shift_def pop_def get_prop_def
  ge_key_def

text \<open>
  Claim C2, as amended. For the dataset \<^verbatim>\<open>{0:"a.jpg", 768:"b.jpg", 1200:"c.jpg"}\<close>, in the
  desktop-first mode, with a window 900 wide and a device pixel ratio of 1, \<open>activeWidth\<close>
  returns \<^verbatim>\<open>"c.jpg"\<close>: the only key that is at least 900 is 1200.
\<close>

theorem scenario_900_selects_c:
  "activeWidth (desktop_window 900) scenario_dataset False = Some ''c.jpg''"
  by (simp add: activeWidth_defs)

text \<open>The claim as it was written, that the result is \<^verbatim>\<open>"b.jpg"\<close>, fails.\<close>

theorem scenario_900_not_b:
  "activeWidth (desktop_window 900) scenario_dataset False \<noteq> Some ''b.jpg''"
  by (simp add: activeWidth_defs)

text \<open>It is the mobile-first mode that selects \<^verbatim>\<open>"b.jpg"\<close> at that width.\<close>

lemma scenario_900_mobile_first:
  "activeWidth (desktop_window 900) scenario_dataset True = Some ''b.jpg''"
  by (simp add: activeWidth_defs)

section \<open>Steps that create no probe\<close>

lemma quiet_refl: "quiet w w"
  by (simp add: quiet_def)

lemma quiet_trans: "quiet a b \<Longrightarrow> quiet b c \<Longrightarrow> quiet a c"
  by (auto simp: quiet_def)

lemma quiet_update_element:
  "\<not> is_New_Image ev \<Longrightarrow> quiet w (update_element el f ev w)"
  by (simp add: quiet_def update_element_def probes_created_def)

lemma quiet_setAttribute: "quiet w (setAttribute el name v w)"
  by (simp add: setAttribute_def quiet_update_element is_New_Image_def)

lemma quiet_removeAttribute: "quiet w (removeAttribute el name w)"
  by (simp add: removeAttribute_def quiet_update_element is_New_Image_def)

lemma quiet_assign_src: "quiet w (assign_src el v w)"
  by (simp add: assign_src_def quiet_update_element is_New_Image_def)

lemma quiet_classList_add: "quiet w (classList_add el name w)"
  by (simp add: classList_add_def quiet_update_element is_New_Image_def)

lemma quiet_set_backgroundImage: "quiet w (set_backgroundImage el v w)"
  by (simp add: set_backgroundImage_def quiet_update_element is_New_Image_def)

lemma quiet_video_load: "quiet w (video_load el w)"
  by (simp add: video_load_def quiet_def probes_created_def is_New_Image_def)

lemma quiet_trigger: "quiet w (trigger el name w)"
  by (simp add: trigger_def quiet_def probes_created_def is_New_Image_def)

lemma quiet_invoke_success: "quiet w (invoke cb Call_success el status w)"
  by (simp add: invoke_def quiet_def probes_created_def is_New_Image_def split: option.splits)

lemma quiet_invoke_error: "quiet w (invoke cb Call_error el status w)"
  by (simp add: invoke_def quiet_def probes_created_def is_New_Image_def split: option.splits)

lemma quiet_setAttr: "quiet w (setAttr el attr remove w)"
  unfolding setAttr_def Let_def
  by (auto split: option.splits
      intro: quiet_refl quiet_assign_src quiet_setAttribute
        quiet_trans [OF quiet_assign_src quiet_removeAttribute]
        quiet_trans [OF quiet_setAttribute quiet_removeAttribute])

lemma quiet_fold:
  assumes "\<And>x v. quiet v (f x v)"
  shows "quiet w (fold f xs w)"
proof (induction xs arbitrary: w)
  case Nil
  show ?case by (simp add: quiet_refl)
next
  case (Cons x xs)
  have "quiet w (f x w)" by (rule assms)
  moreover have "quiet (f x w) (fold f xs (f x w))" by (rule Cons.IH)
  ultimately show ?case by (simp add: quiet_trans)
qed

lemma quiet_setAttrs: "quiet w (setAttrs el attrs remove w)"
  unfolding setAttrs_def by (rule quiet_fold) (rule quiet_setAttr)

lemma quiet_setAttrsWithSources: "quiet w (setAttrsWithSources el attr remove w)"
  unfolding setAttrsWithSources_def Let_def by (rule quiet_fold) (rule quiet_setAttr)

lemma quiet_removeAttrs: "quiet w (removeAttrs el attrs w)"
  unfolding removeAttrs_def by (rule quiet_fold) (rule quiet_removeAttribute)

lemma quiet_success: "quiet w (snd (success el status me w))"
  by (simp add: success_def quiet_invoke_success)

lemma quiet_error: "quiet w (snd (error el status me w))"
  by (simp add: error_def quiet_invoke_error)

lemma quiet_loaded: "quiet w (snd (loaded el status me w))"
  unfolding loaded_def Let_def
  by (auto intro: quiet_trans [OF quiet_classList_add quiet_success]
      quiet_trans [OF quiet_classList_add quiet_error])

lemma quiet_setBg: "quiet w (setBg el w)"
  unfolding setBg_def
  by (auto split: option.splits
      intro: quiet_refl quiet_trans [OF quiet_set_backgroundImage quiet_removeAttribute])

lemma quiet_applyAttrs: "quiet w (applyAttrs el isBg w)"
  by (simp add: applyAttrs_def quiet_setBg quiet_setAttrs)

lemma setImage_probes:
  "probes_created (setImage el isBg w) = Suc (probes_created w)"
  "pending (setImage el isBg w) = pending w @ [(el, isBg)]"
  "prefix (trace w) (trace (setImage el isBg w))"
  by (simp_all add: setImage_def promise_def Let_def probes_created_def is_New_Image_def)

lemmas quiet_branches =
  quiet_trans [OF quiet_trans [OF quiet_setAttrsWithSources quiet_setAttr] quiet_loaded]
  quiet_trans [OF quiet_trans [OF quiet_setAttrsWithSources quiet_video_load] quiet_loaded]
  quiet_trans [OF quiet_setAttr quiet_loaded]

lemma lazyLoad_branches_probes:
  "probes_created (snd (lazyLoad_branches el me w)) \<le> Suc (probes_created w)"
proof -
  have q: "quiet w w' \<Longrightarrow> probes_created w' \<le> Suc (probes_created w)" for w'
    by (simp add: quiet_def)
  show ?thesis
    unfolding lazyLoad_branches_def Let_def
    by (auto simp: setImage_probes intro!: q quiet_refl quiet_branches)
qed

lemma lazyLoad_branches_pending:
  "length (pending (snd (lazyLoad_branches el me w))) \<le> Suc (length (pending w))"
proof -
  have q: "quiet w w' \<Longrightarrow> length (pending w') \<le> Suc (length (pending w))" for w'
    by (simp add: quiet_def)
  show ?thesis
    unfolding lazyLoad_branches_def Let_def
    by (auto simp: setImage_probes intro!: q quiet_refl quiet_branches)
qed

lemma lazyLoad_branches_prefix:
  "prefix (trace w) (trace (snd (lazyLoad_branches el me w)))"
proof -
  have q: "quiet w w' \<Longrightarrow> prefix (trace w) (trace w')" for w'
    by (simp add: quiet_def)
  show ?thesis
    unfolding lazyLoad_branches_def Let_def
    by (auto simp: setImage_probes intro!: q quiet_refl quiet_branches)
qed

lemma hasAttribute_setAttribute: "hasAttribute (setAttribute el name v w) el name"
  by (simp add: hasAttribute_def setAttribute_def update_element_def)

lemma setAttribute_facts:
  "probes_created (setAttribute el name v w) = probes_created w"
  "pending (setAttribute el name v w) = pending w"
  "trace (setAttribute el name v w) = trace w @ [Set_attribute el name v]"
  by (simp_all add: setAttribute_def update_element_def probes_created_def is_New_Image_def)

section \<open>The example page\<close>

lemmas dom_ops = getAttribute_def hasAttribute_def classList_contains_def update_element_def
  setAttribute_def removeAttribute_def assign_src_def classList_add_def set_backgroundImage_def

lemmas page_defs = observing_world_def start_world_def page_def lazy_img_def lazy_bg_def
  plain_div_def loader_def defaults_def desktop_window_def

lemmas lazyLoad_defs = lazyLoad_def lazyLoad_branches_def Bio_lazyLoad_def equal_db_def
  src_undefined_def reflects_src_def setImage_def promise_def truthy_def Let_def

lemmas settle_defs = settle_def applyAttrs_def setAttrs_def setAttr_def setBg_def
  setImage_then_def setImage_catch_def setImage_finally_def trigger_def removeAttrs_def
  loaded_def success_def error_def invoke_def url_value_def

text \<open>The constructor, run on the example page, returns \<open>loader\<close> and observes both elements.\<close>

lemma Bio_on_page:
  "successClass opts \<notin> {''b-lazy'', ''b-bg''} \<Longrightarrow>
   Bio opts [0, 2] start_world = Inr (loader opts, observing_world)"
  by (simp add: Bio_def init_def observe_def Bio_prototype_def start_world_def loader_def
      observing_world_def classList_contains_def page_def lazy_img_def lazy_bg_def
      isLoaded_def observer_observe_def desktop_window_def windowWidth_def Let_def)

text \<open>The state after the loading hook has run once on the image.\<close>

lemma hit_img:
  "snd (lazyLoad 0 (loader opts) observing_world) =
     observing_world
       \<lparr>document := page(0 := lazy_img\<lparr>attributes :=
                     (attributes lazy_img)(''data-bio-hit'' \<mapsto> ''1'')\<rparr>),
        trace := [New_Image 0 (Some ''x.jpg'') (Some ''x.jpg 1x, x2.jpg 2x''),
                  Set_attribute 0 ''data-bio-hit'' ''1''],
        pending := [(0, False)]\<rparr>"
  by (simp add: lazyLoad_defs dom_ops page_defs)

text \<open>The same for the background block.\<close>

lemma hit_bg:
  "bgClass opts = ''b-bg'' \<Longrightarrow>
   snd (lazyLoad 2 (loader opts) observing_world) =
     observing_world
       \<lparr>document := page(2 := lazy_bg\<lparr>attributes :=
                     (attributes lazy_bg)(''data-bio-hit'' \<mapsto> ''1'')\<rparr>),
        trace := [New_Image 2 (Some ''y.jpg'') None, Set_attribute 2 ''data-bio-hit'' ''1''],
        pending := [(2, True)]\<rparr>"
  by (simp add: lazyLoad_defs dom_ops page_defs)

section \<open>The loading hook\<close>

text \<open>
  Claim C3. For every element, instance and state: when the loading hook runs twice in
  immediate succession, the second call changes nothing, and the two calls together create
  at most one probe (counted in the trace and in the list of pending probes).
\<close>

theorem lazyLoad_twice_one_probe:
  "lazyLoad el (fst (lazyLoad el me w)) (snd (lazyLoad el me w)) = lazyLoad el me w \<and>
   probes_created (snd (lazyLoad el (fst (lazyLoad el me w)) (snd (lazyLoad el me w))))
     \<le> probes_created w + 1 \<and>
   length (pending (snd (lazyLoad el (fst (lazyLoad el me w)) (snd (lazyLoad el me w)))))
     \<le> length (pending w) + 1"
proof (cases "hasAttribute w el ''data-bio-hit''")
  case True
  then show ?thesis by (simp add: lazyLoad_def)
next
  case False
  obtain me1 w1 where b: "lazyLoad_branches el me w = (me1, w1)"
    by (cases "lazyLoad_branches el me w")
  have first: "lazyLoad el me w = (me1, setAttribute el ''data-bio-hit'' ''1'' w1)"
    using False b by (simp add: lazyLoad_def Bio_lazyLoad_def)
  have again: "lazyLoad el me1 (setAttribute el ''data-bio-hit'' ''1'' w1)
      = (me1, setAttribute el ''data-bio-hit'' ''1'' w1)"
    by (simp add: lazyLoad_def hasAttribute_setAttribute)
  have "probes_created w1 \<le> Suc (probes_created w)"
    using lazyLoad_branches_probes [of el me w] b by simp
  moreover have "length (pending w1) \<le> Suc (length (pending w))"
    using lazyLoad_branches_pending [of el me w] b by simp
  ultimately show ?thesis
    using first again by (simp add: setAttribute_facts)
qed

theorem lazyLoad_twice_one_probe_witness:
  "probes_created observing_world = 0 \<and>
   probes_created (snd (lazyLoad 0 (fst (lazyLoad 0 (loader defaults) observing_world))
        (snd (lazyLoad 0 (loader defaults) observing_world)))) = 1"
proof -
  have "probes_created (snd (lazyLoad 0 (loader defaults) observing_world)) = 1"
    by (simp add: hit_img probes_created_def is_New_Image_def)
  moreover have "probes_created observing_world = 0"
    by (simp add: probes_created_def page_defs)
  ultimately show ?thesis
    using lazyLoad_twice_one_probe [of 0 "loader defaults" observing_world] by simp
qed

text \<open>
  Claim C8, as amended. For every element that is not marked yet, the loading hook runs
  the branch of the element's type first, on the element without the marker, and sets
  \<^verbatim>\<open>data-bio-hit\<close> after it: the marking is the last effect of the call, and the element is
  marked when the hook returns.
\<close>

theorem lazyLoad_marks_after_branches:
  assumes "\<not> hasAttribute w el ''data-bio-hit''"
  shows "hasAttribute (snd (lazyLoad el me w)) el ''data-bio-hit'' \<and>
         fst (lazyLoad el me w) = fst (lazyLoad_branches el me w) \<and>
         snd (lazyLoad el me w) =
           setAttribute el ''data-bio-hit'' ''1'' (snd (lazyLoad_branches el me w)) \<and>
         (\<exists>evs. trace (snd (lazyLoad_branches el me w)) = trace w @ evs \<and>
                trace (snd (lazyLoad el me w)) =
                  trace w @ evs @ [Set_attribute el ''data-bio-hit'' ''1''])"
proof -
  obtain me1 w1 where b: "lazyLoad_branches el me w = (me1, w1)"
    by (cases "lazyLoad_branches el me w")
  have first: "lazyLoad el me w = (me1, setAttribute el ''data-bio-hit'' ''1'' w1)"
    using assms b by (simp add: lazyLoad_def Bio_lazyLoad_def)
  obtain evs where e: "trace w1 = trace w @ evs"
    using lazyLoad_branches_prefix [of w el me] b by (auto simp: prefix_def)
  show ?thesis
    using first b e by (simp add: hasAttribute_setAttribute setAttribute_facts)
qed

theorem lazyLoad_marks_after_branches_witness:
  "\<not> hasAttribute observing_world 0 ''data-bio-hit'' \<and>
   hasAttribute (snd (lazyLoad 0 (loader defaults) observing_world)) 0 ''data-bio-hit'' \<and>
   snd (lazyLoad 0 (loader defaults) observing_world) =
     setAttribute 0 ''data-bio-hit'' ''1''
       (snd (lazyLoad_branches 0 (loader defaults) observing_world))"
proof -
  have h: "\<not> hasAttribute observing_world 0 ''data-bio-hit''"
    by (simp add: hasAttribute_def observing_world_def start_world_def page_def lazy_img_def)
  show ?thesis
    using h lazyLoad_marks_after_branches [OF h, of "loader defaults"] by blast
qed

text \<open>
  The claim as it was written, that the marker is set before any branch runs, fails on the
  lazy image: the element is still unmarked when its branch has run, and in the trace of
  the call the probe is created before the marker is set.
\<close>

theorem hit_marker_after_probe:
  "\<not> hasAttribute observing_world 0 ''data-bio-hit'' \<and>
   \<not> hasAttribute (snd (lazyLoad_branches 0 (loader defaults) observing_world)) 0 ''data-bio-hit'' \<and>
   trace observing_world = [] \<and>
   trace (snd (lazyLoad_branches 0 (loader defaults) observing_world)) =
     [New_Image 0 (Some ''x.jpg'') (Some ''x.jpg 1x, x2.jpg 2x'')] \<and>
   trace (snd (lazyLoad 0 (loader defaults) observing_world)) =
     [New_Image 0 (Some ''x.jpg'') (Some ''x.jpg 1x, x2.jpg 2x''),
      Set_attribute 0 ''data-bio-hit'' ''1'']"
  by (simp add: lazyLoad_defs dom_ops page_defs)

section \<open>The preload protocol\<close>

lemma loaded_trace:
  "\<exists>rest. trace (snd (loaded el status me w)) =
     trace w @ Class_add el (if status = 1 then successClass (options me)
                             else errorClass (options me)) # rest"
  by (simp add: loaded_def Let_def success_def error_def invoke_def classList_add_def
      update_element_def split: option.splits)

text \<open>
  Claim C7. For every pending probe, whether its load or its error event fires, the
  trace of the protocol ends with the event \<^verbatim>\<open>bio.finally\<close> dispatched on the element, after
  the outcome has been handled (the class of that outcome has been added before).
\<close>

theorem settle_fires_finally:
  assumes "p \<in> set (pending w)"
  shows "\<exists>evs. trace (snd (settle out p me w)) =
                 trace w @ evs @ [Dispatch (fst p) ''bio.finally''] \<and>
           Class_add (fst p) (case out of Onload \<Rightarrow> successClass (options me)
                                        | Onerror \<Rightarrow> errorClass (options me)) \<in> set evs"
proof -
  define w0 where "w0 = w\<lparr>pending := remove1 p (pending w)\<rparr>"
  define w1 where "w1 = applyAttrs (fst p) (snd p) w0"
  obtain as where as: "trace w1 = trace w @ as"
    using quiet_applyAttrs [of w0 "fst p" "snd p"]
    by (auto simp: quiet_def w1_def w0_def prefix_def)
  show ?thesis
  proof (cases out)
    case Onload
    obtain me1 wl where l: "loaded (fst p) 1 me w1 = (me1, wl)"
      by (cases "loaded (fst p) 1 me w1")
    obtain rest where r:
      "trace wl = trace w1 @ Class_add (fst p) (successClass (options me)) # rest"
      using loaded_trace [of "fst p" 1 me w1] l by auto
    obtain bs where bs:
      "trace (removeAttrs (fst p) (if snd p then bgSources else imgSources) wl) = trace wl @ bs"
      using quiet_removeAttrs [of wl "fst p"] by (auto simp: quiet_def prefix_def)
    have "trace (snd (settle out p me w)) =
        trace w @ (as @ Class_add (fst p) (successClass (options me)) # rest @ bs)
          @ [Dispatch (fst p) ''bio.finally'']"
      using assms Onload l r bs as
      by (simp add: settle_def Let_def setImage_then_def setImage_finally_def trigger_def
          w1_def [symmetric] w0_def [symmetric])
    then show ?thesis using Onload by (intro exI conjI) (assumption, simp)
  next
    case Onerror
    obtain me1 wl where l: "loaded (fst p) (- 1) me w1 = (me1, wl)"
      by (cases "loaded (fst p) (- 1) me w1")
    obtain rest where r:
      "trace wl = trace w1 @ Class_add (fst p) (errorClass (options me)) # rest"
      using loaded_trace [of "fst p" "- 1" me w1] l by auto
    have bs: "trace (removeAttribute (fst p) ''data-bio-hit'' wl) =
        trace wl @ [Remove_attribute (fst p) ''data-bio-hit'']"
      by (simp add: removeAttribute_def update_element_def)
    have "trace (snd (settle out p me w)) =
        trace w @ (as @ Class_add (fst p) (errorClass (options me)) # rest
                     @ [Remove_attribute (fst p) ''data-bio-hit''])
          @ [Dispatch (fst p) ''bio.finally'']"
      using assms Onerror l r bs as
      by (simp add: settle_def Let_def setImage_catch_def setImage_finally_def trigger_def
          w1_def [symmetric] w0_def [symmetric])
    then show ?thesis using Onerror by (intro exI conjI) (assumption, simp)
  qed
qed

theorem settle_fires_finally_witness:
  "(0, False) \<in> set (pending (snd (lazyLoad 0 (loader defaults) observing_world))) \<and>
   trace (snd (settle Onerror (0, False) (loader defaults)
           (snd (lazyLoad 0 (loader defaults) observing_world)))) =
     trace (snd (lazyLoad 0 (loader defaults) observing_world)) @
       [Set_attribute 0 ''srcset'' ''x.jpg 1x, x2.jpg 2x'', Assign_src 0 ''x.jpg'',
        Class_add 0 ''b-error'', Remove_attribute 0 ''data-bio-hit'']
       @ [Dispatch 0 ''bio.finally'']"
proof -
  let ?w = "snd (lazyLoad 0 (loader defaults) observing_world)"
  have p: "(0, False) \<in> set (pending ?w)" by (simp add: hit_img)
  have t: "trace (snd (settle Onerror (0, False) (loader defaults) ?w)) =
     trace ?w @ [Set_attribute 0 ''srcset'' ''x.jpg 1x, x2.jpg 2x'', Assign_src 0 ''x.jpg'',
                 Class_add 0 ''b-error'', Remove_attribute 0 ''data-bio-hit'']
       @ [Dispatch 0 ''bio.finally'']"
    by (simp only: hit_img) (simp add: settle_defs dom_ops page_defs Let_def reflects_src_def)
  show ?thesis
    using p t settle_fires_finally [OF p, of Onerror "loader defaults"] by simp
qed

lemma applyAttrs_img:
  assumes "localName (document w el) = ''img''"
  shows "attributes (document (applyAttrs el False w) el) =
           (\<lambda>n. if n = ''src'' \<and> attributes (document w el) ''data-src'' \<noteq> None
                  then attributes (document w el) ''data-src''
                else if n = ''srcset'' \<and> attributes (document w el) ''data-srcset'' \<noteq> None
                  then attributes (document w el) ''data-srcset''
                else attributes (document w el) n)"
  using assms
  by (auto simp: applyAttrs_def setAttrs_def setAttr_def dom_ops reflects_src_def Let_def
      split: option.splits)

lemma applyAttrs_srcset:
  assumes "attributes (document w el) ''data-srcset'' = Some v"
  shows "attributes (document (applyAttrs el False w) el) ''srcset'' = Some v"
  using assms
  by (auto simp: applyAttrs_def setAttrs_def setAttr_def dom_ops Let_def split: option.splits)

lemma applyAttrs_bg:
  assumes "attributes (document w el) ''data-src'' = Some v"
  shows "style_backgroundImage (document (applyAttrs el True w) el) = Some (url_value v)"
  using assms by (simp add: applyAttrs_def setBg_def dom_ops)

lemma loaded_keeps_attribute:
  assumes "keeps_attribute
             (if status = 1 then opt_success (options me) else opt_error (options me)) el name"
  shows "attributes (document (snd (loaded el status me w)) el) name
           = attributes (document w el) name"
  using assms
  by (auto simp: loaded_def success_def error_def invoke_def keeps_attribute_def dom_ops Let_def
      split: option.splits)

lemma loaded_keeps_background:
  assumes "keeps_background
             (if status = 1 then opt_success (options me) else opt_error (options me)) el"
  shows "style_backgroundImage (document (snd (loaded el status me w)) el) =
         style_backgroundImage (document w el)"
  using assms
  by (auto simp: loaded_def success_def error_def invoke_def keeps_background_def dom_ops Let_def
      split: option.splits)

lemma loaded_adds_class:
  assumes "keeps_class
             (if status = 1 then opt_success (options me) else opt_error (options me)) el
             (if status = 1 then successClass (options me) else errorClass (options me))"
  shows "(if status = 1 then successClass (options me) else errorClass (options me))
           \<in> set (classList (document (snd (loaded el status me w)) el))"
  using assms
  by (auto simp: loaded_def success_def error_def invoke_def keeps_class_def dom_ops Let_def
      split: option.splits)

lemma removeAttrs_img:
  "attributes (document (removeAttrs el imgSources w) el) =
     (attributes (document w el))(''data-srcset'' := None, ''data-src'' := None)"
  "classList (document (removeAttrs el imgSources w) el) = classList (document w el)"
  by (simp_all add: removeAttrs_def dom_ops)

lemma removeAttribute_element:
  "attributes (document (removeAttribute el name w) el)
     = (attributes (document w el))(name := None)"
  "classList (document (removeAttribute el name w) el) = classList (document w el)"
  "style_backgroundImage (document (removeAttribute el name w) el)
     = style_backgroundImage (document w el)"
  by (simp_all add: dom_ops)

lemma settle_Onload_img:
  assumes "(el, False) \<in> set (pending w)"
  shows "snd (settle Onload (el, False) me w) =
     trigger el ''bio.finally''
       (removeAttrs el imgSources
          (snd (loaded el 1 me
                 (applyAttrs el False (w\<lparr>pending := remove1 (el, False) (pending w)\<rparr>)))))"
  using assms
  by (simp add: settle_def Let_def setImage_then_def setImage_finally_def split: prod.splits)

lemma settle_Onerror:
  assumes "(el, isBg) \<in> set (pending w)"
  shows "snd (settle Onerror (el, isBg) me w) =
     trigger el ''bio.finally''
       (removeAttribute el ''data-bio-hit''
          (snd (loaded el (- 1) me
                 (applyAttrs el isBg (w\<lparr>pending := remove1 (el, isBg) (pending w)\<rparr>)))))"
  using assms
  by (simp add: settle_def Let_def setImage_catch_def setImage_finally_def split: prod.splits)

lemma document_trigger: "document (trigger el name w) = document w"
  by (simp add: trigger_def)

text \<open>
  Claim C5. For every image element with \<^verbatim>\<open>data-src="X"\<close> whose pending probe fires its
  load event: when the protocol has run, the element has no \<^verbatim>\<open>data-src\<close> attribute; and,
  the success callback being one that leaves the \<^verbatim>\<open>src\<close> attribute and the success class of
  the element alone (or there being none), its \<^verbatim>\<open>src\<close> is \<^verbatim>\<open>X\<close> and it carries the success
  class.
\<close>

theorem preload_success_round_trip:
  assumes "localName (document w el) = ''img''"
    and "(el, False) \<in> set (pending w)"
    and "getAttribute w el ''data-src'' = Some X"
  shows "getAttribute (snd (settle Onload (el, False) me w)) el ''data-src'' = None \<and>
         (keeps_attribute (opt_success (options me)) el ''src'' \<and>
          keeps_class (opt_success (options me)) el (successClass (options me)) \<longrightarrow>
            getAttribute (snd (settle Onload (el, False) me w)) el ''src'' = Some X \<and>
            classList_contains (snd (settle Onload (el, False) me w)) el
              (successClass (options me)))"
proof -
  define w0 where "w0 = w\<lparr>pending := remove1 (el, False) (pending w)\<rparr>"
  define w1 where "w1 = applyAttrs el False w0"
  define w2 where "w2 = snd (loaded el 1 me w1)"
  have fin: "document (snd (settle Onload (el, False) me w))
      = document (removeAttrs el imgSources w2)"
    using settle_Onload_img [OF assms(2), of me]
    by (simp add: document_trigger w0_def w1_def w2_def)
  have img0: "localName (document w0 el) = ''img''" using assms(1) by (simp add: w0_def)
  have ds0: "attributes (document w0 el) ''data-src'' = Some X"
    using assms(3) by (simp add: w0_def getAttribute_def)
  have src1: "attributes (document w1 el) ''src'' = Some X"
    using applyAttrs_img [OF img0] ds0 by (simp add: w1_def)
  have gone: "getAttribute (snd (settle Onload (el, False) me w)) el ''data-src'' = None"
    by (simp add: getAttribute_def fin removeAttrs_img)
  have kept: "getAttribute (snd (settle Onload (el, False) me w)) el ''src'' = Some X \<and>
      classList_contains (snd (settle Onload (el, False) me w)) el (successClass (options me))"
    if k: "keeps_attribute (opt_success (options me)) el ''src''"
      "keeps_class (opt_success (options me)) el (successClass (options me))"
  proof -
    have "attributes (document w2 el) ''src'' = Some X"
      using loaded_keeps_attribute [of 1 me el "''src''" w1] k(1) src1 by (simp add: w2_def)
    moreover have "successClass (options me) \<in> set (classList (document w2 el))"
      using loaded_adds_class [of 1 me el w1] k(2) by (simp add: w2_def)
    ultimately show ?thesis
      by (simp add: getAttribute_def classList_contains_def fin removeAttrs_img)
  qed
  show ?thesis using gone kept by blast
qed

theorem preload_success_round_trip_witness:
  "localName (document (snd (lazyLoad 0 (loader themed) observing_world)) 0) = ''img'' \<and>
   (0, False) \<in> set (pending (snd (lazyLoad 0 (loader themed) observing_world))) \<and>
   getAttribute (snd (lazyLoad 0 (loader themed) observing_world)) 0 ''data-src'' = Some ''x.jpg'' \<and>
   keeps_attribute (opt_success (options (loader themed))) 0 ''src'' \<and>
   keeps_class (opt_success (options (loader themed))) 0 ''b-loaded'' \<and>
   getAttribute (snd (settle Onload (0, False) (loader themed)
        (snd (lazyLoad 0 (loader themed) observing_world)))) 0 ''data-src'' = None \<and>
   getAttribute (snd (settle Onload (0, False) (loader themed)
        (snd (lazyLoad 0 (loader themed) observing_world)))) 0 ''src'' = Some ''x.jpg'' \<and>
   classList_contains (snd (settle Onload (0, False) (loader themed)
        (snd (lazyLoad 0 (loader themed) observing_world)))) 0 ''b-loaded''"
proof -
  let ?w = "snd (lazyLoad 0 (loader themed) observing_world)"
  have p: "(0, False) \<in> set (pending ?w)" by (simp add: hit_img)
  have k: "keeps_attribute (opt_success (options (loader themed))) 0 ''src''"
    "keeps_class (opt_success (options (loader themed))) 0 ''b-loaded''"
    by (simp_all add: keeps_class_def keeps_attribute_def loader_def defaults_def themed_def
        marking_callback_def)
  have i: "localName (document ?w 0) = ''img''"
    by (simp add: hit_img lazy_img_def)
  have d: "getAttribute ?w 0 ''data-src'' = Some ''x.jpg''"
    by (simp add: hit_img getAttribute_def lazy_img_def)
  have s: "successClass (options (loader themed)) = ''b-loaded''"
    by (simp add: loader_def defaults_def themed_def)
  show ?thesis
    using preload_success_round_trip [OF i p d, of "loader themed"] p k i d s
    by simp
qed

text \<open>
  Claim C6, as amended. For every element whose pending probe fires its error event: the
  handler applies the real attributes from the data attributes, the loader adds the error
  class and calls the error callback, and then the hit marker is removed. So, when the
  protocol has run, the element has no \<^verbatim>\<open>data-bio-hit\<close> attribute, whatever the callback;
  and it carries the error class, the \<^verbatim>\<open>src\<close> and \<^verbatim>\<open>srcset\<close> of its data attributes (an
  image) or the background image of its \<^verbatim>\<open>data-src\<close> (a background), when there is no
  error callback or the callback leaves these alone.
\<close>

theorem preload_failure_path:
  assumes "(el, isBg) \<in> set (pending w)"
  shows "\<not> hasAttribute (snd (settle Onerror (el, isBg) me w)) el ''data-bio-hit'' \<and>
         (keeps_class (opt_error (options me)) el (errorClass (options me)) \<longrightarrow>
            classList_contains (snd (settle Onerror (el, isBg) me w)) el
              (errorClass (options me))) \<and>
         (\<not> isBg \<and> localName (document w el) = ''img'' \<and>
          keeps_attribute (opt_error (options me)) el ''src'' \<and>
          getAttribute w el ''data-src'' = Some v1 \<longrightarrow>
            getAttribute (snd (settle Onerror (el, isBg) me w)) el ''src'' = Some v1) \<and>
         (\<not> isBg \<and> keeps_attribute (opt_error (options me)) el ''srcset'' \<and>
          getAttribute w el ''data-srcset'' = Some v2 \<longrightarrow>
            getAttribute (snd (settle Onerror (el, isBg) me w)) el ''srcset'' = Some v2) \<and>
         (isBg \<and> keeps_background (opt_error (options me)) el \<and>
          getAttribute w el ''data-src'' = Some v3 \<longrightarrow>
            style_backgroundImage (document (snd (settle Onerror (el, isBg) me w)) el)
              = Some (url_value v3))"
proof -
  define w0 where "w0 = w\<lparr>pending := remove1 (el, isBg) (pending w)\<rparr>"
  define w1 where "w1 = applyAttrs el isBg w0"
  define w2 where "w2 = snd (loaded el (- 1) me w1)"
  have fin: "document (snd (settle Onerror (el, isBg) me w)) =
      document (removeAttribute el ''data-bio-hit'' w2)"
    using settle_Onerror [OF assms, of me]
    by (simp add: document_trigger w0_def w1_def w2_def)
  have d0: "document w0 = document w" by (simp add: w0_def)
  have hit: "\<not> hasAttribute (snd (settle Onerror (el, isBg) me w)) el ''data-bio-hit''"
    by (simp add: hasAttribute_def fin removeAttribute_element)
  have cls: "classList_contains (snd (settle Onerror (el, isBg) me w)) el
      (errorClass (options me))"
    if "keeps_class (opt_error (options me)) el (errorClass (options me))"
    using loaded_adds_class [of "- 1" me el w1] that
    by (simp add: classList_contains_def fin removeAttribute_element w2_def)
  have src: "getAttribute (snd (settle Onerror (el, isBg) me w)) el ''src'' = Some v1"
    if "\<not> isBg" "localName (document w el) = ''img''"
      "keeps_attribute (opt_error (options me)) el ''src''"
      "getAttribute w el ''data-src'' = Some v1"
  proof -
    have "attributes (document w1 el) ''src'' = Some v1"
      using applyAttrs_img [of w0 el] that by (simp add: w1_def d0 getAttribute_def)
    then have "attributes (document w2 el) ''src'' = Some v1"
      using loaded_keeps_attribute [of "- 1" me el "''src''" w1] that(3) by (simp add: w2_def)
    then show ?thesis by (simp add: getAttribute_def fin removeAttribute_element)
  qed
  have srcset: "getAttribute (snd (settle Onerror (el, isBg) me w)) el ''srcset'' = Some v2"
    if "\<not> isBg" "keeps_attribute (opt_error (options me)) el ''srcset''"
      "getAttribute w el ''data-srcset'' = Some v2"
  proof -
    have "attributes (document w1 el) ''srcset'' = Some v2"
      using applyAttrs_srcset [of w0 el v2] that by (simp add: w1_def d0 getAttribute_def)
    then have "attributes (document w2 el) ''srcset'' = Some v2"
      using loaded_keeps_attribute [of "- 1" me el "''srcset''" w1] that(2)
      by (simp add: w2_def)
    then show ?thesis by (simp add: getAttribute_def fin removeAttribute_element)
  qed
  have bg: "style_backgroundImage (document (snd (settle Onerror (el, isBg) me w)) el)
      = Some (url_value v3)"
    if "isBg" "keeps_background (opt_error (options me)) el"
      "getAttribute w el ''data-src'' = Some v3"
  proof -
    have "style_backgroundImage (document w1 el) = Some (url_value v3)"
      using applyAttrs_bg [of w0 el v3] that by (simp add: w1_def d0 getAttribute_def)
    then have "style_backgroundImage (document w2 el) = Some (url_value v3)"
      using loaded_keeps_background [of "- 1" me el w1] that(2) by (simp add: w2_def)
    then show ?thesis by (simp add: fin removeAttribute_element)
  qed
  show ?thesis using hit cls src srcset bg by blast
qed

theorem preload_failure_path_witness:
  "(0, False) \<in> set (pending (snd (lazyLoad 0 (loader defaults) observing_world))) \<and>
   (2, True) \<in> set (pending (snd (lazyLoad 2 (loader defaults) observing_world))) \<and>
   keeps_class (opt_error (options (loader defaults))) 0 ''b-error'' \<and>
   keeps_attribute (opt_error (options (loader defaults))) 0 ''src'' \<and>
   keeps_attribute (opt_error (options (loader defaults))) 0 ''srcset'' \<and>
   keeps_background (opt_error (options (loader defaults))) 2 \<and>
   getAttribute (snd (lazyLoad 0 (loader defaults) observing_world)) 0 ''data-src''
     = Some ''x.jpg'' \<and>
   \<not> hasAttribute (snd (settle Onerror (0, False) (loader defaults)
        (snd (lazyLoad 0 (loader defaults) observing_world)))) 0 ''data-bio-hit'' \<and>
   classList_contains (snd (settle Onerror (0, False) (loader defaults)
        (snd (lazyLoad 0 (loader defaults) observing_world)))) 0 ''b-error'' \<and>
   getAttribute (snd (settle Onerror (0, False) (loader defaults)
        (snd (lazyLoad 0 (loader defaults) observing_world)))) 0 ''src'' = Some ''x.jpg'' \<and>
   getAttribute (snd (settle Onerror (0, False) (loader defaults)
        (snd (lazyLoad 0 (loader defaults) observing_world)))) 0 ''srcset''
     = Some ''x.jpg 1x, x2.jpg 2x'' \<and>
   style_backgroundImage (document (snd (settle Onerror (2, True) (loader defaults)
        (snd (lazyLoad 2 (loader defaults) observing_world)))) 2)
     = Some (url_value ''y.jpg'')"
proof -
  let ?w = "snd (lazyLoad 0 (loader defaults) observing_world)"
  let ?b = "snd (lazyLoad 2 (loader defaults) observing_world)"
  have bc: "bgClass defaults = ''b-bg''" by (simp add: defaults_def)
  have p: "(0, False) \<in> set (pending ?w)" by (simp add: hit_img)
  have q: "(2, True) \<in> set (pending ?b)" by (simp add: hit_bg [OF bc])
  have k: "keeps_class (opt_error (options (loader defaults))) 0 ''b-error''"
    "keeps_attribute (opt_error (options (loader defaults))) 0 ''src''"
    "keeps_attribute (opt_error (options (loader defaults))) 0 ''srcset''"
    "keeps_background (opt_error (options (loader defaults))) 2"
    by (simp_all add: keeps_class_def keeps_attribute_def keeps_background_def loader_def
        defaults_def)
  have i: "localName (document ?w 0) = ''img''"
    by (simp add: hit_img lazy_img_def)
  have d: "getAttribute ?w 0 ''data-src'' = Some ''x.jpg''"
    "getAttribute ?w 0 ''data-srcset'' = Some ''x.jpg 1x, x2.jpg 2x''"
    by (simp_all add: hit_img getAttribute_def lazy_img_def)
  have g: "getAttribute ?b 2 ''data-src'' = Some ''y.jpg''"
    by (simp add: hit_bg [OF bc] getAttribute_def lazy_bg_def)
  have e: "errorClass (options (loader defaults)) = ''b-error''"
    by (simp add: loader_def defaults_def)
  show ?thesis
    using preload_failure_path
        [OF p, of "loader defaults" "''x.jpg''" "''x.jpg 1x, x2.jpg 2x''"]
      preload_failure_path [OF q, where me = "loader defaults" and ?v3.0 = "''y.jpg''"]
      p q k i d g e
    by simp
qed

text \<open>
  The claim as it was written, that the element carries the error class when the protocol
  has run, fails with the error callback of the orchestrator: the loader adds
  \<^verbatim>\<open>b-error\<close>, and the callback, called next, removes it. On the example page no
  ancestor of the image carries a loading class or an animation, so the other steps of
  \<^verbatim>\<open>clearing\<close> leave the image as it is.
\<close>

theorem error_class_removed_by_reevaluate:
  "errorClass (options (loader orchestrated)) = ''b-error'' \<and>
   (0, False) \<in> set (pending (snd (lazyLoad 0 (loader orchestrated) observing_world))) \<and>
   \<not> classList_contains
       (snd (settle Onerror (0, False) (loader orchestrated)
              (snd (lazyLoad 0 (loader orchestrated) observing_world)))) 0 ''b-error''"
proof -
  let ?w = "snd (lazyLoad 0 (loader orchestrated) observing_world)"
  have e: "errorClass (options (loader orchestrated)) = ''b-error''"
    by (simp add: loader_def orchestrated_def defaults_def)
  have c: "opt_error (options (loader orchestrated)) = Some reevaluate_callback"
    by (simp add: loader_def orchestrated_def defaults_def)
  have p: "(0, False) \<in> set (pending ?w)" by (simp add: hit_img)
  have "''b-error'' \<notin> set (classList (document (snd (loaded 0 (- 1) (loader orchestrated) v)) 0))"
    for v
    using e c
    by (simp add: loaded_def error_def invoke_def reevaluate_callback_def reevaluate_def
        dom_ops Let_def)
  then show ?thesis
    using e p
    by (simp add: settle_Onerror [OF p] classList_contains_def document_trigger
        removeAttribute_element)
qed

text \<open>That callback leaves the attributes and the background of the element alone.\<close>

lemma reevaluate_callback_keeps:
  "keeps_attribute (Some reevaluate_callback) el name"
  "keeps_background (Some reevaluate_callback) el"
  by (simp_all add: keeps_attribute_def keeps_background_def reevaluate_callback_def
      reevaluate_def)

section \<open>The observer engine\<close>

text \<open>
  Claim C4. For every instance and state: \<open>disconnect\<close> without \<open>force\<close>, while
  \<open>erCounted\<close> is positive, returns the instance and the state as they were; and
  \<open>disconnect\<close> with \<open>force\<close>, on an instance that has its observer, empties the
  observer's targets, sets \<open>count\<close> to zero and \<open>elms\<close> to \<^verbatim>\<open>null\<close>, and sets the
  disconnected flag, whatever \<open>erCounted\<close> is.
\<close>

theorem disconnect_guard_and_force:
  "(0 < erCounted me \<longrightarrow> disconnect False me w = Inr (me, w)) \<and>
   (observer me = Some targets \<longrightarrow>
      disconnect True me w =
        Inr (me\<lparr>observer := Some [], count := 0, elms := None\<rparr>,
             w\<lparr>disconnected_var := True\<rparr>))"
  by (simp add: disconnect_def)

theorem disconnect_guard_and_force_witness:
  "0 < erCounted ((loader defaults)\<lparr>erCounted := 2\<rparr>) \<and>
   observer ((loader defaults)\<lparr>erCounted := 2\<rparr>) = Some [0, 2] \<and>
   disconnect False ((loader defaults)\<lparr>erCounted := 2\<rparr>) observing_world
     = Inr ((loader defaults)\<lparr>erCounted := 2\<rparr>, observing_world) \<and>
   disconnect True ((loader defaults)\<lparr>erCounted := 2\<rparr>) observing_world
     = Inr ((loader defaults)\<lparr>erCounted := 2, observer := Some [], count := 0, elms := None\<rparr>,
            observing_world\<lparr>disconnected_var := True\<rparr>)"
  using disconnect_guard_and_force
    [of "(loader defaults)\<lparr>erCounted := 2\<rparr>" observing_world "[0, 2]"]
  by (simp add: loader_def)

text \<open>After \<open>destroy\<close> the observer is \<^verbatim>\<open>null\<close>, and a forced disconnect raises.\<close>

lemma disconnect_without_observer:
  "observer me = None \<Longrightarrow> disconnect True me w = Inl TypeError"
  by (simp add: disconnect_def)

lemma init_returns:
  "\<exists>me' w'. init matching me w = Inr (me', w') \<and> disconnected_var w' = disconnected_var w"
proof (cases "observed_var w")
  case True
  then show ?thesis by (simp add: init_def Let_def)
next
  case False
  then show ?thesis
    by (simp add: init_def Let_def observe_def)
qed

lemma init_erCounted:
  "init matching me w = Inr (me', w') \<Longrightarrow> erCounted me' = erCounted me"
  by (auto simp: init_def Let_def observe_def split: if_splits)

text \<open>
  Claim C9. The disconnected and the observed flag belong to the state that all instances
  share. When a forced disconnect of one instance returns, \<open>disconnected\<close> is true of every
  instance; when the constructor of Bio or of BioMedia returns, \<open>disconnected\<close> is false of
  every instance and the observed flag is set; and the constructor does return.
\<close>

theorem flags_shared_by_instances:
  "(disconnect True me w = Inr (me', w') \<longrightarrow> disconnected other w') \<and>
   (Bio opts matching w = Inr (me', w') \<longrightarrow> \<not> disconnected other w' \<and> observed_var w') \<and>
   (BioMedia opts matching w = Inr (me', w') \<longrightarrow> \<not> disconnected other w' \<and> observed_var w') \<and>
   (\<exists>me1 w1. Bio opts matching w = Inr (me1, w1))"
proof -
  have a: "disconnected other w'" if "disconnect True me w = Inr (me', w')"
    using that by (auto simp: disconnect_def disconnected_def split: option.splits)
  have b: "\<not> disconnected other w' \<and> observed_var w'" if "Bio opts matching w = Inr (me', w')"
    using that
    by (auto simp: Bio_def init_def observe_def Let_def disconnected_def split: if_splits)
  have c: "\<exists>me1 w1. Bio opts matching w = Inr (me1, w1)"
    using init_returns [of matching "Bio_prototype opts"
        "w\<lparr>disconnected_var := False, observed_var := False\<rparr>"]
    by (auto simp: Bio_def)
  show ?thesis using a b c by (simp add: BioMedia_def)
qed

theorem flags_shared_by_instances_witness:
  "disconnect True (loader defaults) observing_world
     = Inr ((loader defaults)\<lparr>observer := Some [], count := 0, elms := None\<rparr>,
            observing_world\<lparr>disconnected_var := True\<rparr>) \<and>
   disconnected (loader themed) (observing_world\<lparr>disconnected_var := True\<rparr>) \<and>
   Bio defaults [0, 2] (observing_world\<lparr>disconnected_var := True\<rparr>)
     = Inr (loader defaults, observing_world) \<and>
   \<not> disconnected (loader themed) observing_world"
proof -
  have d: "disconnect True (loader defaults) observing_world
     = Inr ((loader defaults)\<lparr>observer := Some [], count := 0, elms := None\<rparr>,
            observing_world\<lparr>disconnected_var := True\<rparr>)"
    by (simp add: disconnect_def loader_def)
  have b: "Bio defaults [0, 2] (observing_world\<lparr>disconnected_var := True\<rparr>)
     = Inr (loader defaults, observing_world)"
    by (simp add: Bio_def init_def observe_def Bio_prototype_def start_world_def loader_def
      observing_world_def defaults_def classList_contains_def page_def lazy_img_def lazy_bg_def
      isLoaded_def observer_observe_def desktop_window_def windowWidth_def Let_def)
  show ?thesis
    using d b
      flags_shared_by_instances [where me = "loader defaults" and w = observing_world
        and me' = "(loader defaults)\<lparr>observer := Some [], count := 0, elms := None\<rparr>"
        and w' = "observing_world\<lparr>disconnected_var := True\<rparr>" and other = "loader themed"]
      flags_shared_by_instances [where me' = "loader defaults" and w' = observing_world
        and other = "loader themed" and opts = defaults and matching = "[0, 2]"
        and w = "observing_world\<lparr>disconnected_var := True\<rparr>"]
    by simp
qed

lemma erCounted_steps:
  "erCounted (fst (error el status me w)) = erCounted me + 1"
  "erCounted (fst (success el status me w)) =
     (if 0 < erCounted me then erCounted me - 1 else erCounted me)"
  "erCounted (fst (loaded el status me w)) =
     (if status = 1 then (if 0 < erCounted me then erCounted me - 1 else erCounted me)
      else erCounted me + 1)"
  by (simp_all add: error_def success_def loaded_def Let_def)

lemma run_operations_nonneg:
  "0 \<le> erCounted me \<Longrightarrow> 0 \<le> erCounted (fst (run_operations ops me w))"
proof (induction ops arbitrary: me w)
  case Nil
  then show ?case by simp
next
  case (Cons op ops)
  show ?case
  proof (cases op)
    case (Op_success el status)
    obtain me1 w1 where s: "success el status me w = (me1, w1)"
      by (cases "success el status me w")
    have "0 \<le> erCounted me1"
      using erCounted_steps(2) [of el status me w] s Cons.prems by auto
    then show ?thesis using Cons.IH Op_success s by simp
  next
    case (Op_error el status)
    obtain me1 w1 where s: "error el status me w = (me1, w1)"
      by (cases "error el status me w")
    have "0 \<le> erCounted me1"
      using erCounted_steps(1) [of el status me w] s Cons.prems by auto
    then show ?thesis using Cons.IH Op_error s by simp
  next
    case (Op_loaded el status)
    obtain me1 w1 where s: "loaded el status me w = (me1, w1)"
      by (cases "loaded el status me w")
    have "0 \<le> erCounted me1"
      using erCounted_steps(3) [of el status me w] s Cons.prems by auto
    then show ?thesis using Cons.IH Op_loaded s by simp
  qed
qed

text \<open>
  Claim C10. For every instance that the constructor returns, and for every instance
  whose \<open>erCounted\<close> is not negative, \<open>erCounted\<close> is not negative after any sequence of
  error and success operations, from any state; \<open>error\<close> adds one to it, and \<open>success\<close>
  takes one from it when it is positive and leaves it otherwise.
\<close>

theorem erCounted_never_negative:
  "(Bio opts matching w0 = Inr (me, w1) \<longrightarrow> 0 \<le> erCounted (fst (run_operations ops me w))) \<and>
   (0 \<le> erCounted me \<longrightarrow> 0 \<le> erCounted (fst (run_operations ops me w))) \<and>
   erCounted (fst (error el status me w)) = erCounted me + 1 \<and>
   erCounted (fst (success el status me w)) =
     (if 0 < erCounted me then erCounted me - 1 else erCounted me)"
proof -
  have "erCounted me = 0" if "Bio opts matching w0 = Inr (me, w1)"
    using init_erCounted [of matching "Bio_prototype opts" _ me w1] that
    by (simp add: Bio_def Bio_prototype_def)
  then show ?thesis
    using run_operations_nonneg [of me ops w] erCounted_steps(1,2) by auto
qed

theorem erCounted_never_negative_witness:
  "Bio defaults [0, 2] start_world = Inr (loader defaults, observing_world) \<and>
   0 \<le> erCounted (loader defaults) \<and>
   erCounted (fst (run_operations
      [Op_success 0 1, Op_error 0 (- 1), Op_success 2 1, Op_success 2 1]
      (loader defaults) observing_world)) = 0 \<and>
   0 \<le> erCounted (fst (run_operations
      [Op_success 0 1, Op_error 0 (- 1), Op_success 2 1, Op_success 2 1]
      (loader defaults) observing_world))"
proof -
  have b: "Bio defaults [0, 2] start_world = Inr (loader defaults, observing_world)"
    using Bio_on_page [of defaults] by (simp add: defaults_def)
  have r: "erCounted (fst (run_operations
      [Op_success 0 1, Op_error 0 (- 1), Op_success 2 1, Op_success 2 1]
      (loader defaults) observing_world)) = 0"
    by (simp add: success_def error_def Let_def loader_def)
  show ?thesis
    using b r erCounted_never_negative [of defaults "[0, 2]" start_world "loader defaults"
        observing_world "[Op_success 0 1, Op_error 0 (- 1), Op_success 2 1, Op_success 2 1]"
        observing_world]
    by (simp add: loader_def)
qed

end
